theory Spec2Isabelle
  imports Complex_Main
begin

section \<open>Kernel Dimension Alternative Clustering: the engine of kdac.h\<close>

text \<open>
  The class \<^verbatim>\<open>KDAC<T>\<close> of \<^verbatim>\<open>src/cpp/include/kdac.h\<close> is embedded with explicit
  state passing. The template parameter \<^verbatim>\<open>T\<close> is the type variable \<open>'a\<close>; the
  arithmetic on it is the exact arithmetic of a field, so rounding is not part of the
  model. Members keep their names without the trailing underscore; the one-letter
  members \<^verbatim>\<open>c_\<close>, \<^verbatim>\<open>q_\<close>, \<^verbatim>\<open>n_\<close>, \<^verbatim>\<open>d_\<close> (and \<^verbatim>\<open>kernel_type_\<close>, \<^verbatim>\<open>constant_\<close>) are
  prefixed with \<open>m_\<close>.
\<close>

subsection \<open>Dense matrices and the Eigen operations the engine uses\<close>

text \<open>
  \<^verbatim>\<open>Matrix<T>\<close> is a dynamically sized dense matrix: it carries its two dimensions and
  its coefficients, here row by row.
\<close>

record 'a matrix =
  rows :: nat
  cols :: nat
  coeffs :: "'a list list"

definition mk_matrix :: "nat \<Rightarrow> nat \<Rightarrow> (nat \<Rightarrow> nat \<Rightarrow> 'a) \<Rightarrow> 'a matrix" where
  "mk_matrix r c f = \<lparr>rows = r, cols = c, coeffs = map (\<lambda>i. map (f i) [0..<c]) [0..<r]\<rparr>"

definition coeff :: "'a matrix \<Rightarrow> nat \<Rightarrow> nat \<Rightarrow> 'a" where
  "coeff M i j = coeffs M ! i ! j"

text \<open>\<^verbatim>\<open>Matrix<T>::Identity(r, c)\<close> and \<^verbatim>\<open>Matrix<T>::Constant(r, c, v)\<close>.\<close>

definition Identity :: "nat \<Rightarrow> nat \<Rightarrow> ('a::zero_neq_one) matrix" where
  "Identity r c = mk_matrix r c (\<lambda>i j. if i = j then 1 else 0)"

definition Constant :: "nat \<Rightarrow> nat \<Rightarrow> 'a \<Rightarrow> 'a matrix" where
  "Constant r c v = mk_matrix r c (\<lambda>i j. v)"

text \<open>\<^verbatim>\<open>Vector<T>::Zero(n)\<close>; a vector is the list of its entries.\<close>

definition Zero_vector :: "nat \<Rightarrow> ('a::zero) list" where
  "Zero_vector n = replicate n 0"

text \<open>
  The coefficient-wise quotient by a scalar and the coefficient-wise difference. The
  engine subtracts only two matrices it has just built with the same dimensions.
\<close>

definition div_scalar :: "('a::inverse) matrix \<Rightarrow> 'a \<Rightarrow> 'a matrix" where
  "div_scalar M v = mk_matrix (rows M) (cols M) (\<lambda>i j. coeff M i j / v)"

definition mat_sub :: "('a::minus) matrix \<Rightarrow> 'a matrix \<Rightarrow> 'a matrix" where
  "mat_sub A B = mk_matrix (rows A) (cols A) (\<lambda>i j. coeff A i j - coeff B i j)"

text \<open>
  Ways in which a call leaves the engine without returning: \<^verbatim>\<open>exit(1)\<close> after a
  message on the error stream, and a failed dimension assertion of the matrix library.
\<close>

datatype abort = Exit string int | Eigen_assert

type_synonym 'a result = "abort + 'a"

definition and_then :: "'a result \<Rightarrow> ('a \<Rightarrow> 'b result) \<Rightarrow> 'b result" where
  "and_then r f = (case r of Inl e \<Rightarrow> Inl e | Inr v \<Rightarrow> f v)"

text \<open>The matrix product \<^verbatim>\<open>A * B\<close>; the inner dimensions must agree.\<close>

definition mat_mul :: "('a::semiring_0) matrix \<Rightarrow> 'a matrix \<Rightarrow> 'a matrix result" where
  "mat_mul A B =
     (if cols A = rows B
      then Inr (mk_matrix (rows A) (cols B)
                  (\<lambda>i j. sum_list (map (\<lambda>k. coeff A i k * coeff B k j) [0..<cols A])))
      else Inl Eigen_assert)"

text \<open>\<^verbatim>\<open>M.leftCols(k)\<close>: the block of the first \<open>k\<close> columns, \<open>0 \<le> k \<le> cols M\<close>.\<close>

definition leftCols :: "'a matrix \<Rightarrow> int \<Rightarrow> 'a matrix result" where
  "leftCols M k =
     (if 0 \<le> k \<and> k \<le> int (cols M)
      then Inr (mk_matrix (rows M) (nat k) (coeff M))
      else Inl Eigen_assert)"

subsection \<open>Collaborators\<close>

text \<open>
  \<^verbatim>\<open>kernel_types.h\<close>, \<^verbatim>\<open>cpu_operations.h\<close> and \<^verbatim>\<open>svd_solver.h\<close> are not part of the
  sources at hand. The kernel types are the three that the comment of
  \<^verbatim>\<open>SetKernel\<close> lists; the operations of \<^verbatim>\<open>CpuOperations<T>\<close> and \<^verbatim>\<open>SvdSolver<T>\<close>
  that \<^verbatim>\<open>OptimizeU\<close> calls are parameters of the model, with the shape of their call
  sites: \<^verbatim>\<open>GenDegreeMatrix\<close> writes its two results through reference arguments,
  \<open>MatrixU\<close> stands for \<^verbatim>\<open>solver.Compute(l); solver.MatrixU()\<close>.
\<close>

datatype KernelType = kGaussianKernel | kPolynomialKernel | kLinearKernel

record 'a collaborators =
  GenKernelMatrix :: "'a matrix \<Rightarrow> KernelType \<Rightarrow> 'a \<Rightarrow> 'a matrix"
  GenDegreeMatrix :: "'a matrix \<Rightarrow> 'a matrix \<times> 'a matrix"
  MatrixU :: "'a matrix \<Rightarrow> 'a matrix"
  Normalize :: "'a matrix \<Rightarrow> int \<Rightarrow> int \<Rightarrow> 'a matrix"

subsection \<open>The engine state\<close>

record 'a kdac =
  m_c :: int
  m_q :: int
  m_n :: int
  m_d :: int
  m_kernel_type :: KernelType
  m_constant :: 'a
  u_converge :: bool
  v_converge :: bool
  x_matrix :: "'a matrix"
  w_matrix :: "'a matrix"
  y_matrix :: "bool matrix"
  d_matrix :: "'a matrix"
  d_matrix_to_the_minus_half :: "'a matrix"
  k_matrix :: "'a matrix"
  u_matrix :: "'a matrix"
  u_matrix_normalized :: "'a matrix"
  l_matrix :: "'a matrix"
  h_matrix :: "'a matrix"
  clustering_result :: "'a list"

subsection \<open>Configuration\<close>

definition CheckCQ :: "'a kdac \<Rightarrow> 'a kdac result" where
  "CheckCQ s =
     (if m_q s > m_c s
      then Inl (Exit ''Reduced dimension q cannot exceed cluster number c'' 1)
      else Inr s)"

definition SetC :: "int \<Rightarrow> 'a kdac \<Rightarrow> 'a kdac result" where
  "SetC c s = CheckCQ (s\<lparr>m_c := c\<rparr>)"

definition SetQ :: "int \<Rightarrow> 'a kdac \<Rightarrow> 'a kdac result" where
  "SetQ q s = CheckCQ (s\<lparr>m_q := q\<rparr>)"

definition SetKernel :: "KernelType \<Rightarrow> 'a \<Rightarrow> 'a kdac \<Rightarrow> 'a kdac" where
  "SetKernel kernel_type constant s = s\<lparr>m_kernel_type := kernel_type, m_constant := constant\<rparr>"

text \<open>
  The default constructor. No member has an initialiser, so the constructor starts
  from whatever the object's storage holds: the state \<open>s0\<close>.
\<close>

definition KDAC :: "('a::one) kdac \<Rightarrow> 'a kdac result" where
  "KDAC s0 =
     and_then (SetC 2 s0) (\<lambda>s1.
     and_then (SetQ 2 s1) (\<lambda>s2.
     Inr (SetKernel kGaussianKernel 1 s2)))"

subsection \<open>Fitting\<close>

definition Init :: "('a::field) matrix \<Rightarrow> 'a kdac \<Rightarrow> 'a kdac" where
  "Init input_matrix s =
     (let s1 = s\<lparr>x_matrix := input_matrix\<rparr>;
          s2 = s1\<lparr>m_n := int (rows input_matrix)\<rparr>;
          s3 = s2\<lparr>m_d := int (cols input_matrix)\<rparr>;
          s4 = s3\<lparr>w_matrix := Identity (nat (m_d s3)) (nat (m_d s3))\<rparr>;
          s5 = s4\<lparr>h_matrix :=
                 mat_sub (Identity (nat (m_n s4)) (nat (m_n s4)))
                   (div_scalar (Constant (nat (m_n s4)) (nat (m_n s4)) 1) (of_int (m_n s4)))\<rparr>;
          s6 = s5\<lparr>clustering_result := Zero_vector (nat (m_n s5))\<rparr>;
          s7 = s6\<lparr>u_converge := False\<rparr>
      in s7\<lparr>v_converge := False\<rparr>)"

text \<open>The body of \<^verbatim>\<open>OptimizeW\<close> is empty.\<close>

definition OptimizeW :: "'a kdac \<Rightarrow> 'a kdac" where
  "OptimizeW s = s"

definition OptimizeU :: "'a collaborators \<Rightarrow> ('a::semiring_0) kdac \<Rightarrow> 'a kdac result" where
  "OptimizeU ops s =
     and_then (mat_mul (x_matrix s) (w_matrix s)) (\<lambda>projected_x_matrix.
     let s1 = s\<lparr>k_matrix :=
                 GenKernelMatrix ops projected_x_matrix (m_kernel_type s) (m_constant s)\<rparr>;
         s2 = (case GenDegreeMatrix ops (k_matrix s1) of
                 (D, D_minus_half) \<Rightarrow>
                   s1\<lparr>d_matrix := D, d_matrix_to_the_minus_half := D_minus_half\<rparr>)
     in
     and_then (mat_mul (d_matrix_to_the_minus_half s2) (k_matrix s2)) (\<lambda>dk.
     and_then (mat_mul dk (d_matrix_to_the_minus_half s2)) (\<lambda>l.
     let s3 = s2\<lparr>l_matrix := l\<rparr> in
     and_then (leftCols (MatrixU ops (l_matrix s3)) (m_c s3)) (\<lambda>u.
     let s4 = s3\<lparr>u_matrix := u\<rparr> in
     Inr (s4\<lparr>u_matrix_normalized := Normalize ops (u_matrix s4) 2 1\<rparr>)))))"

definition Fit :: "'a collaborators \<Rightarrow> ('a::field) matrix \<Rightarrow> 'a kdac \<Rightarrow> 'a kdac result" where
  "Fit ops input_matrix s =
     and_then (OptimizeU ops (Init input_matrix s)) (\<lambda>s'. Inr (OptimizeW s'))"

text \<open>
  \<^verbatim>\<open>Predict\<close> is declared to return a \<^verbatim>\<open>Vector<T>\<close> and has an empty body: control
  reaches the end of the function without a return statement, so the call yields no
  vector.
\<close>

definition Predict :: "'a kdac \<Rightarrow> 'a list option" where
  "Predict s = None"

subsection \<open>Concrete engine states\<close>

text \<open>
  A dynamically sized matrix is default-constructed with no rows and no columns. Before
  the body of the constructor runs, the matrix and vector members are empty and the
  scalar members hold whatever values the storage has: the arguments of \<open>storage\<close>.
\<close>

definition empty_matrix :: "'a matrix" where
  "empty_matrix = \<lparr>rows = 0, cols = 0, coeffs = []\<rparr>"

definition storage ::
  "int \<Rightarrow> int \<Rightarrow> int \<Rightarrow> int \<Rightarrow> KernelType \<Rightarrow> 'a \<Rightarrow> bool \<Rightarrow> bool \<Rightarrow> 'a kdac" where
  "storage c q n d kt k uc vc =
     \<lparr>m_c = c, m_q = q, m_n = n, m_d = d, m_kernel_type = kt, m_constant = k,
      u_converge = uc, v_converge = vc,
      x_matrix = empty_matrix, w_matrix = empty_matrix, y_matrix = empty_matrix,
      d_matrix = empty_matrix, d_matrix_to_the_minus_half = empty_matrix,
      k_matrix = empty_matrix, u_matrix = empty_matrix, u_matrix_normalized = empty_matrix,
      l_matrix = empty_matrix, h_matrix = empty_matrix, clustering_result = []\<rparr>"

definition q_exceeds_c :: abort where
  "q_exceeds_c = Exit ''Reduced dimension q cannot exceed cluster number c'' 1"

subsection \<open>Predicates on matrices\<close>



text \<open>
  Modelled from the spec: the dimensions of the results of \<^verbatim>\<open>GenKernelMatrix\<close>,
  \<^verbatim>\<open>GenDegreeMatrix\<close> and the singular value solver, whose code is not among the
  sources. The kernel matrix of \<open>n\<close> samples is \<open>n \<times> n\<close>, the two degree matrices of
  an \<open>n\<close>-row kernel matrix are \<open>n \<times> n\<close>, and the left singular vectors of an
  \<open>n\<close>-row matrix form an \<open>n \<times> n\<close> matrix.
\<close>

definition conforming :: "'a collaborators \<Rightarrow> bool" where
  "conforming ops \<longleftrightarrow>
     (\<forall>P kt k. rows (GenKernelMatrix ops P kt k) = rows P \<and>
               cols (GenKernelMatrix ops P kt k) = rows P) \<and>
     (\<forall>K. rows (fst (GenDegreeMatrix ops K)) = rows K \<and>
          cols (fst (GenDegreeMatrix ops K)) = rows K \<and>
          rows (snd (GenDegreeMatrix ops K)) = rows K \<and>
          cols (snd (GenDegreeMatrix ops K)) = rows K) \<and>
     (\<forall>L. rows (MatrixU ops L) = rows L \<and> cols (MatrixU ops L) = rows L)"

subsection \<open>One instance of the collaborators\<close>

text \<open>
  To run the engine on concrete inputs the parameters need values. This instance is
  exact on the reals: the kernel matrix holds the inner products of the samples plus
  the kernel constant (for every kernel type), the degree of a sample is the sum of
  its row and \<^verbatim>\<open>D^(-1/2)\<close> holds the reciprocal square roots of the degrees, the
  matrix of singular vectors is the identity basis, and a row is divided by its
  Euclidean norm unless the norm is zero. The runs below meet no degree that is zero
  or negative.
\<close>

definition row_sum :: "('a::comm_monoid_add) matrix \<Rightarrow> nat \<Rightarrow> 'a" where
  "row_sum M i = sum_list (map (coeff M i) [0..<cols M])"

definition sample_ops :: "real collaborators" where
  "sample_ops =
     \<lparr>GenKernelMatrix = (\<lambda>P kt k. mk_matrix (rows P) (rows P) (\<lambda>i j.
        sum_list (map (\<lambda>l. coeff P i l * coeff P j l) [0..<cols P]) + k)),
      GenDegreeMatrix = (\<lambda>K.
        (mk_matrix (rows K) (rows K) (\<lambda>i j. if i = j then row_sum K i else 0),
         mk_matrix (rows K) (rows K) (\<lambda>i j. if i = j then 1 / sqrt (row_sum K i) else 0))),
      MatrixU = (\<lambda>L. Identity (rows L) (rows L)),
      Normalize = (\<lambda>M p axis. mk_matrix (rows M) (cols M) (\<lambda>i j.
        if sqrt (sum_list (map (\<lambda>k. (coeff M i k)\<^sup>2) [0..<cols M])) = 0 then 0
        else coeff M i j / sqrt (sum_list (map (\<lambda>k. (coeff M i k)\<^sup>2) [0..<cols M]))))\<rparr>"

text \<open>
  Two equal samples with one feature, and the state that \<^verbatim>\<open>Fit\<close> leaves for them on
  an engine with the default configuration.
\<close>

definition two_samples :: "real matrix" where
  "two_samples = \<lparr>rows = 2, cols = 1, coeffs = [[1], [1]]\<rparr>"

definition fitted_two_samples :: "real kdac" where
  "fitted_two_samples = (storage 2 2 2 1 kGaussianKernel 1 False False)
       \<lparr>x_matrix := \<lparr>rows = 2, cols = 1, coeffs = [[1], [1]]\<rparr>,
        w_matrix := \<lparr>rows = 1, cols = 1, coeffs = [[1]]\<rparr>,
        d_matrix := \<lparr>rows = 2, cols = 2, coeffs = [[4, 0], [0, 4]]\<rparr>,
        d_matrix_to_the_minus_half := \<lparr>rows = 2, cols = 2, coeffs = [[1/2, 0], [0, 1/2]]\<rparr>,
        k_matrix := \<lparr>rows = 2, cols = 2, coeffs = [[2, 2], [2, 2]]\<rparr>,
        u_matrix := \<lparr>rows = 2, cols = 2, coeffs = [[1, 0], [0, 1]]\<rparr>,
        u_matrix_normalized := \<lparr>rows = 2, cols = 2, coeffs = [[1, 0], [0, 1]]\<rparr>,
        l_matrix := \<lparr>rows = 2, cols = 2, coeffs = [[1/2, 1/2], [1/2, 1/2]]\<rparr>,
        h_matrix := \<lparr>rows = 2, cols = 2, coeffs = [[1/2, - 1/2], [- 1/2, 1/2]]\<rparr>,
        clustering_result := [0, 0]\<rparr>"

section \<open>Properties\<close>

subsection \<open>Configuration\<close>

lemma CheckCQ_iff: "CheckCQ s = (if m_q s \<le> m_c s then Inr s else Inl q_exceeds_c)"
  by (simp add: CheckCQ_def q_exceeds_c_def)

lemma SetC_eq: "SetC c s = (if m_q s \<le> c then Inr (s\<lparr>m_c := c\<rparr>) else Inl q_exceeds_c)"
  by (simp add: SetC_def CheckCQ_iff)

lemma SetQ_eq: "SetQ q s = (if q \<le> m_c s then Inr (s\<lparr>m_q := q\<rparr>) else Inl q_exceeds_c)"
  by (simp add: SetQ_def CheckCQ_iff)

lemma KDAC_eq:
  "KDAC s0 =
     (if m_q s0 \<le> 2 then Inr (SetKernel kGaussianKernel 1 (s0\<lparr>m_c := 2, m_q := 2\<rparr>))
      else Inl q_exceeds_c)"
  by (simp add: KDAC_def and_then_def SetC_eq SetQ_eq)

text \<open>
  Claim C3. Whenever \<^verbatim>\<open>SetC\<close> or \<^verbatim>\<open>SetQ\<close> returns normally, the state it leaves
  satisfies \<open>q \<le> c\<close>; a call whose value would break \<open>q \<le> c\<close> against the other
  member's current value does not return: it writes the message and leaves the process
  with \<^verbatim>\<open>exit(1)\<close> inside the setter, so no later call (no fit) runs.
\<close>

theorem setters_keep_q_le_c:
  "(SetC c s = Inr s' \<longrightarrow> m_q s' \<le> m_c s') \<and>
   (SetQ q s = Inr s' \<longrightarrow> m_q s' \<le> m_c s') \<and>
   (m_q s > c \<longrightarrow>
      SetC c s = Inl (Exit ''Reduced dimension q cannot exceed cluster number c'' 1)) \<and>
   (q > m_c s \<longrightarrow>
      SetQ q s = Inl (Exit ''Reduced dimension q cannot exceed cluster number c'' 1))"
  by (auto simp: SetC_eq SetQ_eq q_exceeds_c_def split: if_splits)

theorem setters_keep_q_le_c_witness:
  "SetC 3 (storage 2 2 0 0 kGaussianKernel (1::real) False False)
     = Inr (storage 3 2 0 0 kGaussianKernel 1 False False) \<and>
   m_q (storage 3 2 0 0 kGaussianKernel (1::real) False False)
     \<le> m_c (storage 3 2 0 0 kGaussianKernel (1::real) False False) \<and>
   SetQ 1 (storage 2 2 0 0 kGaussianKernel (1::real) False False)
     = Inr (storage 2 1 0 0 kGaussianKernel 1 False False) \<and>
   m_q (storage 2 1 0 0 kGaussianKernel (1::real) False False)
     \<le> m_c (storage 2 1 0 0 kGaussianKernel (1::real) False False) \<and>
   m_q (storage 2 2 0 0 kGaussianKernel (1::real) False False) > 1 \<and>
   SetC 1 (storage 2 2 0 0 kGaussianKernel (1::real) False False)
     = Inl (Exit ''Reduced dimension q cannot exceed cluster number c'' 1) \<and>
   3 > m_c (storage 2 2 0 0 kGaussianKernel (1::real) False False) \<and>
   SetQ 3 (storage 2 2 0 0 kGaussianKernel (1::real) False False)
     = Inl (Exit ''Reduced dimension q cannot exceed cluster number c'' 1)"
proof -
  have c3: "SetC 3 (storage 2 2 0 0 kGaussianKernel (1::real) False False)
     = Inr (storage 3 2 0 0 kGaussianKernel 1 False False)"
    by (simp add: SetC_eq storage_def)
  have q1: "SetQ 1 (storage 2 2 0 0 kGaussianKernel (1::real) False False)
     = Inr (storage 2 1 0 0 kGaussianKernel 1 False False)"
    by (simp add: SetQ_eq storage_def)
  have q2: "m_q (storage 2 2 0 0 kGaussianKernel (1::real) False False) > 1"
    and c2: "3 > m_c (storage 2 2 0 0 kGaussianKernel (1::real) False False)"
    by (simp_all add: storage_def)
  show ?thesis
    using c3 q1 q2 c2
      setters_keep_q_le_c [of 3 "storage 2 2 0 0 kGaussianKernel (1::real) False False"
        "storage 3 2 0 0 kGaussianKernel 1 False False" 3]
      setters_keep_q_le_c [of 1 "storage 2 2 0 0 kGaussianKernel (1::real) False False"
        "storage 2 1 0 0 kGaussianKernel 1 False False" 1]
    by simp
qed

text \<open>
  Claim C7, as stated, fails: the setters compare \<open>q\<close> with \<open>c\<close> and nothing else.
  From the default configuration, \<^verbatim>\<open>SetQ(0)\<close> returns normally, then so does
  \<^verbatim>\<open>SetC(0)\<close>, then so does \<^verbatim>\<open>SetQ(-1)\<close>.
\<close>

theorem nonpositive_accepted_counterexample:
  "SetQ 0 (storage 2 2 0 0 kGaussianKernel (1::real) False False)
     = Inr (storage 2 0 0 0 kGaussianKernel 1 False False) \<and>
   SetC 0 (storage 2 0 0 0 kGaussianKernel (1::real) False False)
     = Inr (storage 0 0 0 0 kGaussianKernel 1 False False) \<and>
   SetQ (- 1) (storage 0 0 0 0 kGaussianKernel (1::real) False False)
     = Inr (storage 0 (- 1) 0 0 kGaussianKernel 1 False False)"
  by (simp add: SetQ_eq SetC_eq storage_def)

text \<open>
  Claim C7, amended. A non-positive value is a fatal error only when it breaks
  \<open>q \<le> c\<close>: \<^verbatim>\<open>SetC(v)\<close> with \<open>v \<le> 0\<close> exits exactly when the current \<open>q\<close> is larger
  than \<open>v\<close>, and \<^verbatim>\<open>SetQ(v)\<close> with \<open>v \<le> 0\<close> exits exactly when \<open>v\<close> is larger than the
  current \<open>c\<close>; in every other case the value is stored and the call returns.
\<close>

theorem nonpositive_checked_only_against_other:
  assumes "v \<le> 0"
  shows "(SetC v s = Inl (Exit ''Reduced dimension q cannot exceed cluster number c'' 1)
            \<longleftrightarrow> m_q s > v) \<and>
         (SetC v s = Inr (s\<lparr>m_c := v\<rparr>) \<longleftrightarrow> m_q s \<le> v) \<and>
         (SetQ v s = Inl (Exit ''Reduced dimension q cannot exceed cluster number c'' 1)
            \<longleftrightarrow> v > m_c s) \<and>
         (SetQ v s = Inr (s\<lparr>m_q := v\<rparr>) \<longleftrightarrow> v \<le> m_c s)"
  by (auto simp: SetC_eq SetQ_eq q_exceeds_c_def)

theorem nonpositive_checked_only_against_other_witness:
  "(- 1 :: int) \<le> 0 \<and>
   SetC (- 1) (storage 2 2 0 0 kGaussianKernel (1::real) False False)
     = Inl (Exit ''Reduced dimension q cannot exceed cluster number c'' 1) \<and>
   SetQ (- 1) (storage 2 2 0 0 kGaussianKernel (1::real) False False)
     = Inr ((storage 2 2 0 0 kGaussianKernel (1::real) False False)\<lparr>m_q := - 1\<rparr>)"
proof -
  have h: "(- 1 :: int) \<le> 0" by simp
  show ?thesis
    using h nonpositive_checked_only_against_other
      [OF h, of "storage 2 2 0 0 kGaussianKernel (1::real) False False"]
    by (simp add: storage_def)
qed

text \<open>
  Claim C10. The check runs inside each setter, against the value the other member has
  at that moment. An engine that the default constructor has built has \<open>c = 2\<close> and
  \<open>q = 2\<close>; on it \<^verbatim>\<open>SetQ(3)\<close> exits, while \<^verbatim>\<open>SetC(3)\<close> followed by \<^verbatim>\<open>SetQ(3)\<close> returns
  with \<open>c = 3\<close> and \<open>q = 3\<close>.
\<close>

theorem setter_order_matters:
  assumes "KDAC s0 = Inr s"
  shows "m_c s = 2 \<and> m_q s = 2 \<and>
         SetQ 3 s = Inl (Exit ''Reduced dimension q cannot exceed cluster number c'' 1) \<and>
         and_then (SetC 3 s) (SetQ 3) = Inr (s\<lparr>m_c := 3, m_q := 3\<rparr>)"
  using assms
  by (auto simp: KDAC_eq SetC_eq SetQ_eq SetKernel_def and_then_def q_exceeds_c_def
      split: if_splits)

theorem setter_order_matters_witness:
  "KDAC (storage 0 0 0 0 kLinearKernel (0::real) False False)
     = Inr (storage 2 2 0 0 kGaussianKernel 1 False False) \<and>
   SetQ 3 (storage 2 2 0 0 kGaussianKernel (1::real) False False)
     = Inl (Exit ''Reduced dimension q cannot exceed cluster number c'' 1) \<and>
   and_then (SetC 3 (storage 2 2 0 0 kGaussianKernel (1::real) False False)) (SetQ 3)
     = Inr (storage 3 3 0 0 kGaussianKernel 1 False False)"
proof -
  have k: "KDAC (storage 0 0 0 0 kLinearKernel (0::real) False False)
     = Inr (storage 2 2 0 0 kGaussianKernel 1 False False)"
    by (simp add: KDAC_eq storage_def SetKernel_def)
  show ?thesis
    using k setter_order_matters [OF k] by (simp add: storage_def)
qed

subsection \<open>Matrices\<close>

lemma rows_mk_matrix [simp]: "rows (mk_matrix r c f) = r"
  by (simp add: mk_matrix_def)

lemma cols_mk_matrix [simp]: "cols (mk_matrix r c f) = c"
  by (simp add: mk_matrix_def)

lemma coeff_mk_matrix [simp]: "i < r \<Longrightarrow> j < c \<Longrightarrow> coeff (mk_matrix r c f) i j = f i j"
  by (simp add: mk_matrix_def coeff_def)

lemma and_then_Inr_iff: "and_then r f = Inr y \<longleftrightarrow> (\<exists>v. r = Inr v \<and> f v = Inr y)"
  by (cases r) (simp_all add: and_then_def)


lemma mat_mul_Inr:
  "cols A = rows B \<Longrightarrow> \<exists>C. mat_mul A B = Inr C \<and> rows C = rows A \<and> cols C = cols B"
  by (simp add: mat_mul_def)




subsection \<open>Initialization\<close>

lemma Init_eq:
  "Init X s = s\<lparr>x_matrix := X, m_n := int (rows X), m_d := int (cols X),
       w_matrix := Identity (cols X) (cols X),
       h_matrix := mat_sub (Identity (rows X) (rows X))
                     (div_scalar (Constant (rows X) (rows X) 1) (of_nat (rows X))),
       clustering_result := Zero_vector (rows X),
       u_converge := False, v_converge := False\<rparr>"
  by (simp add: Init_def Let_def)

lemma Init_dims:
  "rows (x_matrix (Init X s)) = rows X" "cols (x_matrix (Init X s)) = cols X"
  "rows (w_matrix (Init X s)) = cols X" "cols (w_matrix (Init X s)) = cols X"
  "m_c (Init X s) = m_c s"
  by (simp_all add: Init_eq Identity_def)

lemma h_coeff:
  assumes "i < n" "j < n"
  shows "coeff (mat_sub (Identity n n) (div_scalar (Constant n n 1) (of_nat n))) i j
         = (if i = j then 1 else 0) - 1 / (of_nat n :: 'a::field)"
  using assms by (simp add: mat_sub_def Identity_def div_scalar_def Constant_def)

lemma Init_frame:
  assumes "m_c t = m_c s" "m_q t = m_q s" "m_kernel_type t = m_kernel_type s"
    "m_constant t = m_constant s" "y_matrix t = y_matrix s"
  shows "Init X t = (Init X s)\<lparr>k_matrix := k_matrix t, d_matrix := d_matrix t,
           d_matrix_to_the_minus_half := d_matrix_to_the_minus_half t,
           l_matrix := l_matrix t, u_matrix := u_matrix t,
           u_matrix_normalized := u_matrix_normalized t\<rparr>"
  using assms by (intro kdac.equality) (simp_all add: Init_eq)

subsection \<open>The embedding update\<close>

lemma OptimizeU_Inr_iff:
  "OptimizeU ops s = Inr s' \<longleftrightarrow>
     (\<exists>P DK L U.
        mat_mul (x_matrix s) (w_matrix s) = Inr P \<and>
        mat_mul (snd (GenDegreeMatrix ops (GenKernelMatrix ops P (m_kernel_type s) (m_constant s))))
                (GenKernelMatrix ops P (m_kernel_type s) (m_constant s)) = Inr DK \<and>
        mat_mul DK (snd (GenDegreeMatrix ops
                      (GenKernelMatrix ops P (m_kernel_type s) (m_constant s)))) = Inr L \<and>
        leftCols (MatrixU ops L) (m_c s) = Inr U \<and>
        s' = s\<lparr>k_matrix := GenKernelMatrix ops P (m_kernel_type s) (m_constant s),
               d_matrix := fst (GenDegreeMatrix ops
                                 (GenKernelMatrix ops P (m_kernel_type s) (m_constant s))),
               d_matrix_to_the_minus_half :=
                 snd (GenDegreeMatrix ops
                        (GenKernelMatrix ops P (m_kernel_type s) (m_constant s))),
               l_matrix := L, u_matrix := U, u_matrix_normalized := Normalize ops U 2 1\<rparr>)"
  unfolding OptimizeU_def and_then_Inr_iff Let_def case_prod_beta
  by (simp add: eq_commute [of s'])

lemma OptimizeU_overwrites:
  "OptimizeU ops (s\<lparr>k_matrix := a, d_matrix := b, d_matrix_to_the_minus_half := c,
                   l_matrix := d, u_matrix := e, u_matrix_normalized := f\<rparr>) = OptimizeU ops s"
  by (simp add: OptimizeU_def Let_def and_then_def case_prod_beta split: sum.splits)

lemma OptimizeU_conforming:
  assumes c: "conforming ops" and xw: "cols (x_matrix s) = rows (w_matrix s)"
  shows "(0 \<le> m_c s \<and> m_c s \<le> int (rows (x_matrix s)) \<longrightarrow>
            (\<exists>s'. OptimizeU ops s = Inr s')) \<and>
         (\<not> (0 \<le> m_c s \<and> m_c s \<le> int (rows (x_matrix s))) \<longrightarrow>
            OptimizeU ops s = Inl Eigen_assert)"
proof -
  obtain P where P: "mat_mul (x_matrix s) (w_matrix s) = Inr P" "rows P = rows (x_matrix s)"
    using mat_mul_Inr [OF xw] by blast
  define K where "K = GenKernelMatrix ops P (m_kernel_type s) (m_constant s)"
  define Dh where "Dh = snd (GenDegreeMatrix ops K)"
  have K: "rows K = rows P" "cols K = rows P"
    using c by (simp_all add: conforming_def K_def)
  have Dh: "rows Dh = rows P" "cols Dh = rows P"
    using c K by (simp_all add: conforming_def Dh_def)
  obtain DK where DK: "mat_mul Dh K = Inr DK" "rows DK = rows P" "cols DK = rows P"
    using mat_mul_Inr [of Dh K] K Dh by auto
  obtain L where L: "mat_mul DK Dh = Inr L" "rows L = rows P"
    using mat_mul_Inr [of DK Dh] DK Dh by auto
  have U: "cols (MatrixU ops L) = rows P"
    using c L by (simp add: conforming_def)
  show ?thesis
    using P DK L U unfolding K_def Dh_def
    by (simp add: OptimizeU_def and_then_def Let_def case_prod_beta leftCols_def)
qed

subsection \<open>Runs on concrete inputs\<close>

lemma replicate_two: "replicate 2 x = [x, x]"
  by (simp add: numeral_2_eq_2)

lemmas run_defs = replicate_two Fit_def Init_eq OptimizeU_def OptimizeW_def and_then_def
  mat_mul_def leftCols_def sample_ops_def row_sum_def Identity_def mk_matrix_def coeff_def
  upt_conv_Cons storage_def Let_def mat_sub_def div_scalar_def Constant_def Zero_vector_def
  empty_matrix_def

lemma conforming_sample_ops: "conforming sample_ops"
  by (simp add: conforming_def sample_ops_def Identity_def)



lemma Fit_two_samples:
  "Fit sample_ops two_samples (storage 2 2 0 0 kGaussianKernel 1 False False)
     = Inr fitted_two_samples"
  by (simp add: run_defs two_samples_def fitted_two_samples_def)

lemma OptimizeU_again:
  "OptimizeU sample_ops fitted_two_samples = Inr fitted_two_samples"
  by (simp add: run_defs fitted_two_samples_def)

subsection \<open>Claims about initialization\<close>

text \<open>
  Claim C5, as stated, fails: \<^verbatim>\<open>Init\<close> builds \<^verbatim>\<open>Identity(d_, d_)\<close> and never reads
  \<^verbatim>\<open>q_\<close>. For one sample with three features on an engine with \<open>q = 2\<close> the
  projection matrix is \<open>3 \<times> 3\<close>, not \<open>3 \<times> 2\<close>.
\<close>

theorem Init_w_not_d_by_q_counterexample:
  "rows (w_matrix (Init (Constant 1 3 (1::real)) (storage 2 2 0 0 kGaussianKernel 1 False False))) = 3 \<and>
   cols (w_matrix (Init (Constant 1 3 (1::real)) (storage 2 2 0 0 kGaussianKernel 1 False False))) = 3 \<and>
   m_q (Init (Constant 1 3 (1::real)) (storage 2 2 0 0 kGaussianKernel 1 False False)) = 2"
  by (simp add: Init_eq Identity_def Constant_def storage_def)

text \<open>
  Claim C5, amended. For every \<open>n \<times> d\<close> input matrix and every configuration,
  initialization sets the projection matrix to the full \<open>d \<times> d\<close> identity, whatever
  \<open>q\<close> is.
\<close>

theorem Init_w_full_identity:
  "w_matrix (Init X s) = Identity (cols X) (cols X) \<and>
   rows (w_matrix (Init X s)) = cols X \<and> cols (w_matrix (Init X s)) = cols X \<and>
   (\<forall>i<cols X. \<forall>j<cols X. coeff (w_matrix (Init X s)) i j = (if i = j then 1 else 0))"
  by (simp add: Init_eq Identity_def)

theorem Init_w_full_identity_witness:
  "(0::nat) < cols (Constant 1 3 (1::real)) \<and> (1::nat) < cols (Constant 1 3 (1::real)) \<and>
   w_matrix (Init (Constant 1 3 (1::real)) (storage 2 2 0 0 kGaussianKernel 1 False False))
     = \<lparr>rows = 3, cols = 3, coeffs = [[1, 0, 0], [0, 1, 0], [0, 0, 1]]\<rparr> \<and>
   coeff (w_matrix (Init (Constant 1 3 (1::real)) (storage 2 2 0 0 kGaussianKernel 1 False False))) 0 0 = 1 \<and>
   coeff (w_matrix (Init (Constant 1 3 (1::real)) (storage 2 2 0 0 kGaussianKernel 1 False False))) 0 1 = 0"
proof -
  have c: "(0::nat) < cols (Constant 1 3 (1::real))" "(1::nat) < cols (Constant 1 3 (1::real))"
    by (simp_all add: Constant_def)
  have i: "Identity 3 3 = \<lparr>rows = 3, cols = 3, coeffs = [[1, 0, 0], [0, 1, 0], [0, 0, (1::real)]]\<rparr>"
    by (simp add: Identity_def mk_matrix_def upt_conv_Cons)
  show ?thesis
    using c i Init_w_full_identity [of "Constant 1 3 (1::real)" "storage 2 2 0 0 kGaussianKernel 1 False False"]
    by (simp add: Constant_def coeff_def)
qed

text \<open>
  Claim C8, as stated, fails: \<^verbatim>\<open>Init\<close> does not assign \<^verbatim>\<open>k_matrix_\<close>,
  \<^verbatim>\<open>d_matrix_\<close>, \<^verbatim>\<open>l_matrix_\<close> or \<^verbatim>\<open>u_matrix_\<close>. After a fit of two samples,
  initialization for three samples still holds the \<open>2 \<times> 2\<close> matrices of that fit.
\<close>

theorem Init_keeps_matrices_counterexample:
  "Fit sample_ops two_samples (storage 2 2 0 0 kGaussianKernel 1 False False)
     = Inr fitted_two_samples \<and>
   m_n (Init (Constant 3 1 1) fitted_two_samples) = 3 \<and>
   k_matrix (Init (Constant 3 1 1) fitted_two_samples)
     = \<lparr>rows = 2, cols = 2, coeffs = [[2, 2], [2, 2]]\<rparr> \<and>
   d_matrix (Init (Constant 3 1 1) fitted_two_samples)
     = \<lparr>rows = 2, cols = 2, coeffs = [[4, 0], [0, 4]]\<rparr> \<and>
   l_matrix (Init (Constant 3 1 1) fitted_two_samples)
     = \<lparr>rows = 2, cols = 2, coeffs = [[1/2, 1/2], [1/2, 1/2]]\<rparr> \<and>
   u_matrix (Init (Constant 3 1 1) fitted_two_samples)
     = \<lparr>rows = 2, cols = 2, coeffs = [[1, 0], [0, 1]]\<rparr>"
  by (simp add: Fit_two_samples Init_eq Constant_def)
     (simp add: fitted_two_samples_def storage_def)

text \<open>
  Claim C8, amended. For every input matrix, initialization stores the matrix and its
  dimensions \<open>n\<close> and \<open>d\<close>, sets the centering matrix to the \<open>n \<times> n\<close> matrix with
  entries \<open>1 - 1/n\<close> on the diagonal and \<open>- 1/n\<close> elsewhere, sets the clustering result to the zero vector of length
  \<open>n\<close> and both convergence flags to false. It leaves \<open>K\<close>, \<open>D\<close>, \<^verbatim>\<open>D^(-1/2)\<close>,
  \<open>L\<close>, \<open>U\<close>, the normalized \<open>U\<close> and \<open>Y\<close> as they were. The embedding phase that
  follows in \<^verbatim>\<open>Fit\<close> overwrites the first six without reading them: the outcome of
  \<^verbatim>\<open>Fit\<close> on an input is the same from any two states that agree on \<open>c\<close>, \<open>q\<close>, the
  kernel type, the kernel constant and \<open>Y\<close>.
\<close>

theorem Init_effect:
  "x_matrix (Init X s) = X \<and> m_n (Init X s) = int (rows X) \<and> m_d (Init X s) = int (cols X) \<and>
   rows (h_matrix (Init X s)) = rows X \<and> cols (h_matrix (Init X s)) = rows X \<and>
   (\<forall>i<rows X. \<forall>j<rows X.
      coeff (h_matrix (Init X s)) i j = (if i = j then 1 else 0) - 1 / of_nat (rows X)) \<and>
   clustering_result (Init X s) = replicate (rows X) 0 \<and>
   \<not> u_converge (Init X s) \<and> \<not> v_converge (Init X s) \<and>
   k_matrix (Init X s) = k_matrix s \<and> d_matrix (Init X s) = d_matrix s \<and>
   d_matrix_to_the_minus_half (Init X s) = d_matrix_to_the_minus_half s \<and>
   l_matrix (Init X s) = l_matrix s \<and> u_matrix (Init X s) = u_matrix s \<and>
   u_matrix_normalized (Init X s) = u_matrix_normalized s \<and>
   y_matrix (Init X s) = y_matrix s \<and>
   (m_c t = m_c s \<and> m_q t = m_q s \<and> m_kernel_type t = m_kernel_type s \<and>
    m_constant t = m_constant s \<and> y_matrix t = y_matrix s \<longrightarrow> Fit ops X t = Fit ops X s)"
proof -
  have "Fit ops X t = Fit ops X s"
    if "m_c t = m_c s \<and> m_q t = m_q s \<and> m_kernel_type t = m_kernel_type s \<and>
        m_constant t = m_constant s \<and> y_matrix t = y_matrix s"
    unfolding Fit_def using that Init_frame [of t s X] by (simp add: OptimizeU_overwrites)
  moreover have "\<forall>i<rows X. \<forall>j<rows X.
      coeff (h_matrix (Init X s)) i j = (if i = j then 1 else 0) - 1 / of_nat (rows X)"
    by (simp add: Init_eq h_coeff)
  moreover have "rows (h_matrix (Init X s)) = rows X \<and> cols (h_matrix (Init X s)) = rows X"
    by (simp add: Init_eq mat_sub_def Identity_def)
  ultimately show ?thesis
    by (simp add: Init_eq Zero_vector_def)
qed

theorem Init_effect_witness:
  "(0::nat) < rows two_samples \<and> (1::nat) < rows two_samples \<and>
   coeff (h_matrix (Init two_samples (storage 2 2 0 0 kGaussianKernel 1 False False))) 0 1
     = - (1 / 2) \<and>
   coeff (h_matrix (Init two_samples (storage 2 2 0 0 kGaussianKernel 1 False False))) 1 1
     = 1 / 2 \<and>
   m_c fitted_two_samples = m_c (storage 2 2 0 0 kGaussianKernel (1::real) False False) \<and>
   m_q fitted_two_samples = m_q (storage 2 2 0 0 kGaussianKernel (1::real) False False) \<and>
   m_kernel_type fitted_two_samples
     = m_kernel_type (storage 2 2 0 0 kGaussianKernel (1::real) False False) \<and>
   m_constant fitted_two_samples
     = m_constant (storage 2 2 0 0 kGaussianKernel (1::real) False False) \<and>
   y_matrix fitted_two_samples = y_matrix (storage 2 2 0 0 kGaussianKernel (1::real) False False) \<and>
   Fit sample_ops two_samples fitted_two_samples = Inr fitted_two_samples"
proof -
  have r: "(0::nat) < rows two_samples" "(1::nat) < rows two_samples" "rows two_samples = 2"
    by (simp_all add: two_samples_def)
  have cfg: "m_c fitted_two_samples = m_c (storage 2 2 0 0 kGaussianKernel (1::real) False False)"
    "m_q fitted_two_samples = m_q (storage 2 2 0 0 kGaussianKernel (1::real) False False)"
    "m_kernel_type fitted_two_samples
       = m_kernel_type (storage 2 2 0 0 kGaussianKernel (1::real) False False)"
    "m_constant fitted_two_samples
       = m_constant (storage 2 2 0 0 kGaussianKernel (1::real) False False)"
    "y_matrix fitted_two_samples = y_matrix (storage 2 2 0 0 kGaussianKernel (1::real) False False)"
    by (simp_all add: fitted_two_samples_def storage_def)
  note e = Init_effect [where X = two_samples
      and s = "storage 2 2 0 0 kGaussianKernel 1 False False"
      and t = fitted_two_samples and ops = sample_ops]
  from e cfg have f: "Fit sample_ops two_samples fitted_two_samples = Inr fitted_two_samples"
    by (simp only: Fit_two_samples)
  from e r have h: "coeff (h_matrix (Init two_samples (storage 2 2 0 0 kGaussianKernel 1 False False))) 0 1
     = - (1 / 2)"
    "coeff (h_matrix (Init two_samples (storage 2 2 0 0 kGaussianKernel 1 False False))) 1 1
     = 1 / 2"
    by simp_all
  show ?thesis using r cfg f h by simp
qed

subsection \<open>Claims about the embedding update\<close>





subsection \<open>Claims about fitting and prediction\<close>

text \<open>
  Claim C6, as stated, fails: neither \<^verbatim>\<open>Fit\<close> nor \<^verbatim>\<open>Init\<close> looks at the
  dimensions of the input. For two samples with no feature (\<open>n = 2\<close>, \<open>d = 0\<close>)
  \<^verbatim>\<open>Fit\<close> runs the embedding update and returns normally.
\<close>

theorem Fit_empty_input_counterexample:
  "Fit sample_ops \<lparr>rows = 2, cols = 0, coeffs = [[], []]\<rparr>
       (storage 2 2 0 0 kGaussianKernel 1 False False)
   = Inr ((storage 2 2 2 0 kGaussianKernel 1 False False)
       \<lparr>x_matrix := \<lparr>rows = 2, cols = 0, coeffs = [[], []]\<rparr>,
        w_matrix := \<lparr>rows = 0, cols = 0, coeffs = []\<rparr>,
        d_matrix := \<lparr>rows = 2, cols = 2, coeffs = [[2, 0], [0, 2]]\<rparr>,
        d_matrix_to_the_minus_half :=
          \<lparr>rows = 2, cols = 2, coeffs = [[1 / sqrt 2, 0], [0, 1 / sqrt 2]]\<rparr>,
        k_matrix := \<lparr>rows = 2, cols = 2, coeffs = [[1, 1], [1, 1]]\<rparr>,
        u_matrix := \<lparr>rows = 2, cols = 2, coeffs = [[1, 0], [0, 1]]\<rparr>,
        u_matrix_normalized := \<lparr>rows = 2, cols = 2, coeffs = [[1, 0], [0, 1]]\<rparr>,
        l_matrix := \<lparr>rows = 2, cols = 2, coeffs = [[1/2, 1/2], [1/2, 1/2]]\<rparr>,
        h_matrix := \<lparr>rows = 2, cols = 2, coeffs = [[1/2, - 1/2], [- 1/2, 1/2]]\<rparr>,
        clustering_result := [0, 0]\<rparr>)"
  by (simp add: run_defs)

text \<open>
  Claim C6, amended. \<^verbatim>\<open>Fit\<close> has no check for an empty input and reports no input
  error: initialization takes a matrix of any dimensions and the embedding update
  always starts. With collaborators whose results have the dimensions of their
  description, \<^verbatim>\<open>Fit\<close> returns normally exactly when \<open>0 \<le> c \<le> n\<close>, whatever \<open>d\<close>
  is; otherwise it ends inside the embedding update, in the failed assertion of
  \<^verbatim>\<open>leftCols\<close>.
\<close>

theorem Fit_accepts_every_shape:
  assumes "conforming ops"
  shows "(0 \<le> m_c s \<and> m_c s \<le> int (rows X) \<longrightarrow>
            (\<exists>s'. Fit ops X s = Inr s' \<and> m_n s' = int (rows X) \<and> m_d s' = int (cols X))) \<and>
         (\<not> (0 \<le> m_c s \<and> m_c s \<le> int (rows X)) \<longrightarrow> Fit ops X s = Inl Eigen_assert)"
proof -
  have xw: "cols (x_matrix (Init X s)) = rows (w_matrix (Init X s))"
    by (simp add: Init_dims)
  note u = OptimizeU_conforming [OF assms xw, unfolded Init_dims]
  show ?thesis
  proof (cases "0 \<le> m_c s \<and> m_c s \<le> int (rows X)")
    case True
    with u obtain s' where s': "OptimizeU ops (Init X s) = Inr s'" by blast
    then have "m_n s' = int (rows X) \<and> m_d s' = int (cols X)"
      unfolding OptimizeU_Inr_iff by (auto simp: Init_eq)
    with s' True show ?thesis
      by (simp add: Fit_def and_then_def OptimizeW_def)
  next
    case False
    with u show ?thesis by (simp add: Fit_def and_then_def)
  qed
qed

theorem Fit_accepts_every_shape_witness:
  "conforming sample_ops \<and>
   (0 \<le> m_c (storage 2 2 0 0 kGaussianKernel (1::real) False False) \<and>
    m_c (storage 2 2 0 0 kGaussianKernel (1::real) False False)
      \<le> int (rows \<lparr>rows = 2, cols = 0, coeffs = [[], []] :: real list list\<rparr>)) \<and>
   (\<exists>s'. Fit sample_ops \<lparr>rows = 2, cols = 0, coeffs = [[], []]\<rparr>
            (storage 2 2 0 0 kGaussianKernel 1 False False) = Inr s' \<and>
         m_n s' = 2 \<and> m_d s' = 0) \<and>
   \<not> (0 \<le> m_c (storage 2 2 0 0 kGaussianKernel (1::real) False False) \<and>
      m_c (storage 2 2 0 0 kGaussianKernel (1::real) False False)
        \<le> int (rows \<lparr>rows = 0, cols = 3, coeffs = [] :: real list list\<rparr>)) \<and>
   Fit sample_ops \<lparr>rows = 0, cols = 3, coeffs = []\<rparr>
       (storage 2 2 0 0 kGaussianKernel 1 False False) = Inl Eigen_assert"
proof -
  have c: "m_c (storage 2 2 0 0 kGaussianKernel (1::real) False False) = 2"
    by (simp add: storage_def)
  show ?thesis
    using conforming_sample_ops c
      Fit_accepts_every_shape [OF conforming_sample_ops,
        of "storage 2 2 0 0 kGaussianKernel 1 False False"
           "\<lparr>rows = 2, cols = 0, coeffs = [[], []]\<rparr>"]
      Fit_accepts_every_shape [OF conforming_sample_ops,
        of "storage 2 2 0 0 kGaussianKernel 1 False False"
           "\<lparr>rows = 0, cols = 3, coeffs = []\<rparr>"]
    by simp
qed

text \<open>
  Claim C2 against the code, on two samples: \<^verbatim>\<open>Fit\<close> is initialization, one
  embedding update and one (empty) projection update. Both convergence flags are
  false when it returns, although one more round of the two phases would leave every
  member, the normalized \<open>U\<close> included, exactly as it is.
\<close>

theorem Fit_single_round:
  "Fit sample_ops two_samples (storage 2 2 0 0 kGaussianKernel 1 False False)
     = Inr fitted_two_samples \<and>
   \<not> u_converge fitted_two_samples \<and> \<not> v_converge fitted_two_samples \<and>
   and_then (OptimizeU sample_ops fitted_two_samples) (\<lambda>s. Inr (OptimizeW s))
     = Inr fitted_two_samples"
  by (simp add: Fit_two_samples OptimizeU_again and_then_def OptimizeW_def)
     (simp add: fitted_two_samples_def storage_def)

text \<open>
  Claim C4 against the code: after a fit that has returned, \<^verbatim>\<open>Predict\<close> yields no
  label vector; on an engine that has never been fitted it behaves the same, with no
  error of its own.
\<close>

theorem Predict_yields_no_labels:
  "Fit sample_ops two_samples (storage 2 2 0 0 kGaussianKernel 1 False False)
     = Inr fitted_two_samples \<and>
   Predict fitted_two_samples = None \<and>
   Predict (storage 2 2 0 0 kGaussianKernel (1::real) False False) = None"
  by (simp add: Fit_two_samples Predict_def)

end
